theory Spec2Isabelle
  imports Main "HOL-Library.Sublist"
begin

section \<open>Strings\<close>

text \<open>
  The component works on JavaScript strings through three built-ins:
  \<^verbatim>\<open>String.prototype.trim\<close>, \<^verbatim>\<open>toLowerCase\<close> and \<^verbatim>\<open>includes\<close>.
  A string is modelled as a \<^typ>\<open>string\<close>, each \<^typ>\<open>char\<close> standing for the code unit of
  the same number (U+0000 to U+00FF, the Latin-1 range); on that range the three
  definitions below are what ECMAScript prescribes.
\<close>

text \<open>
  ECMAScript WhiteSpace and LineTerminator code points below U+0100: TAB, LF, VT, FF, CR,
  SP and NBSP.
\<close>

definition isWhiteSpace :: "char \<Rightarrow> bool" where
  "isWhiteSpace c = (c \<in> set [CHR 0x09, CHR 0x0A, CHR 0x0B, CHR 0x0C, CHR 0x0D, CHR 0x20, CHR 0xA0])"

text \<open>\<^verbatim>\<open>s.trim()\<close>: white space removed from both ends.\<close>

definition trim :: "string \<Rightarrow> string" where
  "trim s = rev (dropWhile isWhiteSpace (rev (dropWhile isWhiteSpace s)))"

text \<open>
  \<^verbatim>\<open>s.toLowerCase()\<close>: A to Z (0x41 to 0x5A) and the Latin-1 capitals 0xC0 to 0xDE, the
  multiplication sign 0xD7 apart, move up by 0x20; every other code unit stays.
\<close>

definition lowerChar :: "char \<Rightarrow> char" where
  "lowerChar c =
     (let n = (of_char c :: nat)
      in if (65 \<le> n \<and> n \<le> 90) \<or> (192 \<le> n \<and> n \<le> 222 \<and> n \<noteq> 215)
         then char_of (n + 32) else c)"

definition toLowerCase :: "string \<Rightarrow> string" where
  "toLowerCase s = map lowerChar s"

text \<open>
  \<^verbatim>\<open>s.includes(t)\<close>, named \<open>includes_str\<close> since \<open>includes\<close> is a keyword of
  Isabelle: the search of StringIndexOf from position 0, which compares \<open>t\<close> with the
  substring of its length at each position of \<open>s\<close> in turn, the end included.
\<close>

fun includes_str :: "string \<Rightarrow> string \<Rightarrow> bool" where
  "includes_str [] t = (t = [])"
| "includes_str (c # cs) t = (take (length t) (c # cs) = t \<or> includes_str cs t)"

section \<open>Data\<close>

text \<open>
  Modelled from the spec: the type \<^verbatim>\<open>Person\<close> is declared in \<^verbatim>\<open>./types/Person\<close>, which is
  not among the sources. The components read \<^verbatim>\<open>name\<close>, \<^verbatim>\<open>born\<close>, \<^verbatim>\<open>died\<close> and
  \<^verbatim>\<open>slug\<close>; the spec's Candidate is a record of a unique key, a name and two years.
  The roster \<^verbatim>\<open>peopleFromServer\<close> (\<^verbatim>\<open>./data/people\<close>) is not among the sources either:
  every definition that reads it takes it as its first argument.
\<close>

record Person =
  name :: string
  born :: int
  died :: int
  slug :: string

section \<open>The debounce timer\<close>

text \<open>
  \<^verbatim>\<open>lodash.debounce(func, wait)\<close> with its default options (trailing edge only): a call
  stores its argument and restarts the wait; \<open>func\<close> runs once, with the argument of the
  latest call, when \<open>wait\<close> milliseconds have passed without another call. The pending
  call is the field \<open>timer\<close>: the milliseconds left and the stored argument.

  The state that every variant of the component has: the \<^verbatim>\<open>useState\<close> cells of
  \<^verbatim>\<open>src/App.tsx\<close>, the pending debounced call, and \<open>commits\<close>, the arguments of the
  calls of \<^verbatim>\<open>setAppliedQuery\<close> so far, oldest first. Time is counted in milliseconds
  between events.
\<close>

record state_simple =
  selectedItem :: "Person option"
  isInputFocused :: bool
  query :: string
  appliedQuery :: string
  timer :: "(nat \<times> string) option"
  commits :: "string list"

definition setAppliedQuery :: "string \<Rightarrow> 'a state_simple_scheme \<Rightarrow> 'a state_simple_scheme" where
  "setAppliedQuery v s = s\<lparr>appliedQuery := v, commits := commits s @ [v]\<rparr>"

text \<open>A call of the debounced function: the wait starts again with the new argument.\<close>

definition debounced :: "nat \<Rightarrow> string \<Rightarrow> 'a state_simple_scheme \<Rightarrow> 'a state_simple_scheme" where
  "debounced delay v s = s\<lparr>timer := Some (delay, v)\<rparr>"

text \<open>
  \<open>ms\<close> milliseconds pass with no event: a pending call that is due runs \<open>func\<close> on its
  argument, one that is not due has less time left.
\<close>

definition elapse ::
  "(string \<Rightarrow> 'a state_simple_scheme \<Rightarrow> 'a state_simple_scheme) \<Rightarrow> nat \<Rightarrow>
   'a state_simple_scheme \<Rightarrow> 'a state_simple_scheme" where
  "elapse func ms s =
     (case timer s of
        None \<Rightarrow> s
      | Some (left, v) \<Rightarrow>
          if left \<le> ms then func v (s\<lparr>timer := None\<rparr>)
          else s\<lparr>timer := Some (left - ms, v)\<rparr>)"

text \<open>The prop that every variant of the component takes, 300 when it is left out.\<close>

record props_simple =
  debounceDelay :: nat

section \<open>The component with a separate dropdown flag\<close>

text \<open>
  The two source files that declare \<^verbatim>\<open>isDropdownOpen\<close> and \<^verbatim>\<open>lastAppliedValueRef\<close>
  differ in their comments only; this section is both. Its definitions carry the source's
  names. \<open>onSelected_calls\<close> lists the arguments of the calls of the \<^verbatim>\<open>onSelected\<close>
  prop so far.
\<close>

record props = props_simple +
  onSelected :: "(Person \<Rightarrow> unit) option"

record state = state_simple +
  isDropdownOpen :: bool
  lastAppliedValueRef :: string
  onSelected_calls :: "Person list"

definition init :: state where
  "init = \<lparr>selectedItem = None, isInputFocused = False, query = [], appliedQuery = [],
           timer = None, commits = [],
           isDropdownOpen = False, lastAppliedValueRef = [], onSelected_calls = []\<rparr>"

definition filteredPeople :: "Person list \<Rightarrow> state \<Rightarrow> Person list" where
  "filteredPeople peopleFromServer s =
     (let trimmed = trim (appliedQuery s)
      in if isInputFocused s \<and> trimmed = [] then peopleFromServer
         else filter (\<lambda>person. includes_str (toLowerCase (name person)) (toLowerCase trimmed))
                peopleFromServer)"

text \<open>The function handed to \<^verbatim>\<open>debounce\<close>.\<close>

definition applyValue :: "string \<Rightarrow> state \<Rightarrow> state" where
  "applyValue v s =
     (if lastAppliedValueRef s \<noteq> v then (setAppliedQuery v s)\<lparr>lastAppliedValueRef := v\<rparr>
      else s)"

definition debouncedApply :: "props \<Rightarrow> string \<Rightarrow> state \<Rightarrow> state" where
  "debouncedApply p v s = debounced (debounceDelay p) v s"

definition handleQueryChange :: "props \<Rightarrow> string \<Rightarrow> state \<Rightarrow> state" where
  "handleQueryChange p next s =
     (let trimmed = trim next;
          s1 = s\<lparr>query := next\<rparr>;
          s2 = (case selectedItem s of
                  Some item \<Rightarrow> if trim (name item) \<noteq> trimmed then s1\<lparr>selectedItem := None\<rparr> else s1
                | None \<Rightarrow> s1)
      in if trimmed = [] then (setAppliedQuery [] s2)\<lparr>isDropdownOpen := isInputFocused s\<rparr>
         else (debouncedApply p next s2)\<lparr>isDropdownOpen := True\<rparr>)"

definition handleFocus :: "state \<Rightarrow> state" where
  "handleFocus s =
     (let s1 = s\<lparr>isInputFocused := True, isDropdownOpen := True\<rparr>
      in if trim (query s) = [] then setAppliedQuery [] s1 else s1)"

definition handleBlur :: "state \<Rightarrow> state" where
  "handleBlur s = s\<lparr>isInputFocused := False, isDropdownOpen := False\<rparr>"

definition handlePersonSelected :: "props \<Rightarrow> Person \<Rightarrow> state \<Rightarrow> state" where
  "handlePersonSelected p person s =
     (let s1 = setAppliedQuery (name person) (s\<lparr>selectedItem := Some person, query := name person\<rparr>);
          s2 = s1\<lparr>isInputFocused := False, isDropdownOpen := False\<rparr>
      in case onSelected p of
           Some f \<Rightarrow> s2\<lparr>onSelected_calls := onSelected_calls s2 @ [person]\<rparr>
         | None \<Rightarrow> s2)"

definition isOpen :: "state \<Rightarrow> bool" where
  "isOpen s = (isInputFocused s \<and> isDropdownOpen s)"

text \<open>
  What the dropdown region of the returned element holds: the \<^verbatim>\<open>is-active\<close> class, the
  persons of the \<^verbatim>\<open>suggestion-item\<close> rows in order, and whether the
  \<^verbatim>\<open>no-suggestions-message\<close> row is there.
\<close>

record view =
  is_active :: bool
  suggestion_items :: "Person list"
  no_suggestions_message :: bool

definition render :: "Person list \<Rightarrow> state \<Rightarrow> view" where
  "render peopleFromServer s =
     (let people = filteredPeople peopleFromServer s
      in \<lparr>is_active = isOpen s,
          suggestion_items = (if length people > 0 \<and> isOpen s then people else []),
          no_suggestions_message = (isOpen s \<and> length people = 0)\<rparr>)"

text \<open>
  The events of the browser and their handlers: \<^verbatim>\<open>onChange\<close>, \<^verbatim>\<open>onFocus\<close> and \<^verbatim>\<open>onBlur\<close>
  of the \<^verbatim>\<open>input\<close>, and \<^verbatim>\<open>onMouseDown\<close> of a row. A timed event is an event with the
  milliseconds that pass before it: the timer runs first, then the handler. The states
  the component can reach are those a list of timed events leads to from \<open>init\<close>.
\<close>

datatype event = Change string | Focus | Blur | Select Person

fun handle :: "props \<Rightarrow> event \<Rightarrow> state \<Rightarrow> state" where
  "handle p (Change next) s = handleQueryChange p next s"
| "handle p Focus s = handleFocus s"
| "handle p Blur s = handleBlur s"
| "handle p (Select person) s = handlePersonSelected p person s"

definition wait :: "nat \<Rightarrow> state \<Rightarrow> state" where
  "wait ms s = elapse applyValue ms s"

definition step :: "props \<Rightarrow> nat \<times> event \<Rightarrow> state \<Rightarrow> state" where
  "step p te s = handle p (snd te) (wait (fst te) s)"

definition run :: "props \<Rightarrow> (nat \<times> event) list \<Rightarrow> state \<Rightarrow> state" where
  "run p tes s = foldl (\<lambda>s te. step p te s) s tes"

section \<open>The component of \<^verbatim>\<open>src/App.tsx\<close>\<close>

text \<open>
  The named source file: no trimming, no dropdown flag, no callback. Its definitions
  carry the suffix \<open>_simple\<close>; the handlers written inline in the element are named after
  the attribute they are given to. \<^verbatim>\<open>applyQuery\<close> is \<^verbatim>\<open>debounce(setAppliedQuery, debounceDelay)\<close>.
\<close>

definition init_simple :: state_simple where
  "init_simple = \<lparr>selectedItem = None, isInputFocused = False, query = [], appliedQuery = [],
                  timer = None, commits = []\<rparr>"

definition applyQuery :: "props_simple \<Rightarrow> string \<Rightarrow> state_simple \<Rightarrow> state_simple" where
  "applyQuery p v s = debounced (debounceDelay p) v s"

definition handleQueryChange_simple :: "props_simple \<Rightarrow> string \<Rightarrow> state_simple \<Rightarrow> state_simple" where
  "handleQueryChange_simple p v s = (applyQuery p v (s\<lparr>query := v\<rparr>))\<lparr>selectedItem := None\<rparr>"

definition filteredPeople_simple :: "Person list \<Rightarrow> state_simple \<Rightarrow> Person list" where
  "filteredPeople_simple peopleFromServer s =
     filter (\<lambda>person. includes_str (toLowerCase (name person)) (toLowerCase (appliedQuery s)))
       peopleFromServer"

definition onFocus_simple :: "state_simple \<Rightarrow> state_simple" where
  "onFocus_simple s = s\<lparr>isInputFocused := True\<rparr>"

definition onBlur_simple :: "state_simple \<Rightarrow> state_simple" where
  "onBlur_simple s = s\<lparr>isInputFocused := False\<rparr>"

definition onMouseDown_simple :: "Person \<Rightarrow> state_simple \<Rightarrow> state_simple" where
  "onMouseDown_simple person s =
     s\<lparr>selectedItem := Some person, query := name person, isInputFocused := False\<rparr>"

definition wait_simple :: "nat \<Rightarrow> state_simple \<Rightarrow> state_simple" where
  "wait_simple ms s = elapse setAppliedQuery ms s"

text \<open>
  The \<^verbatim>\<open>dropdown\<close> element always has the class \<^verbatim>\<open>is-active\<close>; the
  \<^verbatim>\<open>suggestions-list\<close> is there when the input is focused and a person matches; the
  \<^verbatim>\<open>no-suggestions-message\<close> stands outside the dropdown, under its own condition.
\<close>

definition render_simple :: "Person list \<Rightarrow> state_simple \<Rightarrow> view" where
  "render_simple peopleFromServer s =
     (let people = filteredPeople_simple peopleFromServer s
      in \<lparr>is_active = True,
          suggestion_items = (if isInputFocused s \<and> length people \<noteq> 0 then people else []),
          no_suggestions_message = (length people = 0)\<rparr>)"

section \<open>The component with \<^verbatim>\<open>lastValue\<close>\<close>

text \<open>
  The unnamed source file whose prop is \<^verbatim>\<open>onPersonSelected\<close>: it trims in the filter and
  calls the prop, keeps the last debounced value in the variable \<^verbatim>\<open>lastValue\<close> of the
  \<^verbatim>\<open>useMemo\<close> closure, and has no dropdown flag. Its definitions carry the suffix
  \<open>_mid\<close>.
\<close>

record props_mid = props_simple +
  onPersonSelected :: "(Person \<Rightarrow> unit) option"

record state_mid = state_simple +
  lastValue :: string
  onPersonSelected_calls :: "Person list"

definition init_mid :: state_mid where
  "init_mid = \<lparr>selectedItem = None, isInputFocused = False, query = [], appliedQuery = [],
               timer = None, commits = [], lastValue = [], onPersonSelected_calls = []\<rparr>"

definition applyValue_mid :: "string \<Rightarrow> state_mid \<Rightarrow> state_mid" where
  "applyValue_mid v s =
     (if v \<noteq> lastValue s then (setAppliedQuery v s)\<lparr>lastValue := v\<rparr> else s)"

definition debouncedApply_mid :: "props_mid \<Rightarrow> string \<Rightarrow> state_mid \<Rightarrow> state_mid" where
  "debouncedApply_mid p v s = debounced (debounceDelay p) v s"

definition handleQueryChange_mid :: "props_mid \<Rightarrow> string \<Rightarrow> state_mid \<Rightarrow> state_mid" where
  "handleQueryChange_mid p v s =
     (let s1 = s\<lparr>query := v\<rparr>;
          s2 = (if v \<noteq> appliedQuery s then debouncedApply_mid p v s1 else s1)
      in s2\<lparr>selectedItem := None\<rparr>)"

definition handlePersonSelected_mid :: "props_mid \<Rightarrow> Person \<Rightarrow> state_mid \<Rightarrow> state_mid" where
  "handlePersonSelected_mid p person s =
     (let s1 = setAppliedQuery (name person) (s\<lparr>selectedItem := Some person, query := name person\<rparr>);
          s2 = s1\<lparr>isInputFocused := False\<rparr>
      in case onPersonSelected p of
           Some f \<Rightarrow> s2\<lparr>onPersonSelected_calls := onPersonSelected_calls s2 @ [person]\<rparr>
         | None \<Rightarrow> s2)"

definition filteredPeople_mid :: "Person list \<Rightarrow> state_mid \<Rightarrow> Person list" where
  "filteredPeople_mid peopleFromServer s =
     (if isInputFocused s \<and> trim (appliedQuery s) = [] then peopleFromServer
      else filter (\<lambda>person. includes_str (toLowerCase (name person))
                              (toLowerCase (trim (appliedQuery s))))
             peopleFromServer)"

definition wait_mid :: "nat \<Rightarrow> state_mid \<Rightarrow> state_mid" where
  "wait_mid ms s = elapse applyValue_mid ms s"


section \<open>Example data\<close>

text \<open>The roster of the spec's scenario, and props with the default delay.\<close>

definition alice :: Person where
  "alice = \<lparr>name = ''Alice'', born = 1, died = 2, slug = ''alice-1''\<rparr>"

definition bob :: Person where
  "bob = \<lparr>name = ''Bob'', born = 3, died = 4, slug = ''bob-3''\<rparr>"

definition roster :: "Person list" where
  "roster = [alice, bob]"

definition delay300 :: props_simple where
  "delay300 = \<lparr>debounceDelay = 300\<rparr>"

definition silent :: props where
  "silent = \<lparr>debounceDelay = 300, onSelected = None\<rparr>"

definition notifying :: props where
  "notifying = \<lparr>debounceDelay = 300, onSelected = Some (\<lambda>person. ())\<rparr>"

definition silent_mid :: props_mid where
  "silent_mid = \<lparr>debounceDelay = 300, onPersonSelected = None\<rparr>"


section \<open>Strings: facts\<close>

lemma includes_sublist: "includes_str s t \<longleftrightarrow> sublist t s"
proof (induction s)
  case Nil
  show ?case by simp
next
  case (Cons c cs)
  have "take (length t) (c # cs) = t \<longleftrightarrow> prefix t (c # cs)"
    by (metis append_eq_conv_conj prefix_def)
  with Cons show ?case
    by (simp add: sublist_Cons_right)
qed

lemma toLowerCase_Nil: "toLowerCase [] = []"
  by (simp add: toLowerCase_def)

lemma trim_Nil: "trim [] = []"
  by (simp add: trim_def)

section \<open>The filter as a plain filter\<close>

lemma filteredPeople_filter:
  "filteredPeople ps s =
     filter (\<lambda>c. sublist (toLowerCase (trim (appliedQuery s))) (toLowerCase (name c))) ps"
  by (simp add: filteredPeople_def Let_def includes_sublist toLowerCase_Nil)

lemma filteredPeople_mid_filter:
  "filteredPeople_mid ps s =
     filter (\<lambda>c. sublist (toLowerCase (trim (appliedQuery s))) (toLowerCase (name c))) ps"
  by (simp add: filteredPeople_mid_def includes_sublist toLowerCase_Nil)

lemma filteredPeople_simple_filter:
  "filteredPeople_simple ps s =
     filter (\<lambda>c. sublist (toLowerCase (appliedQuery s)) (toLowerCase (name c))) ps"
  by (simp add: filteredPeople_simple_def includes_sublist)

section \<open>The handlers as record updates\<close>

lemma handleQueryChange_empty:
  "trim next = [] \<Longrightarrow>
   handleQueryChange p next s =
     s\<lparr>query := next,
       selectedItem := (case selectedItem s of
                          Some item \<Rightarrow> if trim (name item) \<noteq> [] then None else Some item
                        | None \<Rightarrow> None),
       appliedQuery := [], commits := commits s @ [[]],
       isDropdownOpen := isInputFocused s\<rparr>"
  by (simp add: handleQueryChange_def setAppliedQuery_def Let_def split: option.splits)

lemma handleQueryChange_nonempty:
  "trim next \<noteq> [] \<Longrightarrow>
   handleQueryChange p next s =
     s\<lparr>query := next,
       selectedItem := (case selectedItem s of
                          Some item \<Rightarrow> if trim (name item) \<noteq> trim next then None else Some item
                        | None \<Rightarrow> None),
       timer := Some (debounceDelay p, next),
       isDropdownOpen := True\<rparr>"
  by (simp add: handleQueryChange_def debouncedApply_def debounced_def Let_def split: option.splits)

lemma handleQueryChange_simple_eq:
  "handleQueryChange_simple p v s =
     s\<lparr>query := v, timer := Some (debounceDelay p, v), selectedItem := None\<rparr>"
  by (simp add: handleQueryChange_simple_def applyQuery_def debounced_def)

lemma handleFocus_eq:
  "handleFocus s =
     (if trim (query s) = []
      then s\<lparr>isInputFocused := True, isDropdownOpen := True, appliedQuery := [],
             commits := commits s @ [[]]\<rparr>
      else s\<lparr>isInputFocused := True, isDropdownOpen := True\<rparr>)"
  by (simp add: handleFocus_def setAppliedQuery_def Let_def)

lemma handlePersonSelected_eq:
  "handlePersonSelected p c s =
     s\<lparr>selectedItem := Some c, query := name c, appliedQuery := name c,
       commits := commits s @ [name c], isInputFocused := False, isDropdownOpen := False,
       onSelected_calls :=
         onSelected_calls s @ (case onSelected p of Some f \<Rightarrow> [c] | None \<Rightarrow> [])\<rparr>"
  by (simp add: handlePersonSelected_def setAppliedQuery_def Let_def split: option.splits)

lemma handlePersonSelected_mid_eq:
  "handlePersonSelected_mid p c s =
     s\<lparr>selectedItem := Some c, query := name c, appliedQuery := name c,
       commits := commits s @ [name c], isInputFocused := False,
       onPersonSelected_calls :=
         onPersonSelected_calls s @ (case onPersonSelected p of Some f \<Rightarrow> [c] | None \<Rightarrow> [])\<rparr>"
  by (simp add: handlePersonSelected_mid_def setAppliedQuery_def Let_def split: option.splits)

section \<open>The timer\<close>

lemma wait_None: "timer s = None \<Longrightarrow> wait ms s = s"
  by (simp add: wait_def elapse_def)


lemma wait_due:
  "timer s = Some (left, v) \<Longrightarrow> left \<le> ms \<Longrightarrow> wait ms s = applyValue v (s\<lparr>timer := None\<rparr>)"
  by (simp add: wait_def elapse_def)

text \<open>The debounced function touches the applied query, its log, the ref and the timer only.\<close>

lemma wait_frame:
  "isInputFocused (wait ms s) = isInputFocused s"
  "isDropdownOpen (wait ms s) = isDropdownOpen s"
  "selectedItem (wait ms s) = selectedItem s"
  "query (wait ms s) = query s"
  "onSelected_calls (wait ms s) = onSelected_calls s"
  by (simp_all add: wait_def elapse_def applyValue_def setAppliedQuery_def split: option.splits)

lemma run_Nil: "run p [] s = s"
  by (simp add: run_def)

lemma run_Cons: "run p (te # tes) s = run p tes (step p te s)"
  by (simp add: run_def)


section \<open>The flags of the states the component can reach\<close>







section \<open>The claims\<close>

subsection \<open>C1: the filter\<close>

text \<open>
  C1, amended. In the component with the dropdown flag, for every applied query the filter
  returns exactly the persons whose lower-cased name contains the trimmed, lower-cased
  query, in roster order, and with the input focused and the trimmed query empty it
  returns the roster unchanged. In \<^verbatim>\<open>src/App.tsx\<close> the filter returns exactly the persons
  whose lower-cased name contains the lower-cased query as it stands, untrimmed, in roster
  order.
\<close>

theorem filteredPeople_exact:
  "filteredPeople ps s =
     filter (\<lambda>c. sublist (toLowerCase (trim (appliedQuery s))) (toLowerCase (name c))) ps
   \<and> (isInputFocused s \<and> trim (appliedQuery s) = [] \<longrightarrow> filteredPeople ps s = ps)
   \<and> filteredPeople_simple ps t =
     filter (\<lambda>c. sublist (toLowerCase (appliedQuery t)) (toLowerCase (name c))) ps"
  by (simp add: filteredPeople_filter filteredPeople_simple_filter toLowerCase_Nil)

text \<open>Focused, with two blanks applied: the whole roster.\<close>

theorem filteredPeople_exact_witness:
  "isInputFocused (init\<lparr>isInputFocused := True, appliedQuery := ''  ''\<rparr>)
   \<and> trim (appliedQuery (init\<lparr>isInputFocused := True, appliedQuery := ''  ''\<rparr>)) = []
   \<and> filteredPeople roster (init\<lparr>isInputFocused := True, appliedQuery := ''  ''\<rparr>) = roster"
proof -
  have h: "isInputFocused (init\<lparr>isInputFocused := True, appliedQuery := ''  ''\<rparr>)
      \<and> trim (appliedQuery (init\<lparr>isInputFocused := True, appliedQuery := ''  ''\<rparr>)) = []"
    by (simp add: trim_def isWhiteSpace_def)
  with filteredPeople_exact
    [of roster "init\<lparr>isInputFocused := True, appliedQuery := ''  ''\<rparr>"]
  show ?thesis by blast
qed

text \<open>
  C1 as stated fails in \<^verbatim>\<open>src/App.tsx\<close>: with \<open>al\<close> and a blank applied, Alice's lower-cased
  name contains the trimmed query, and the filter returns nobody.
\<close>

theorem filteredPeople_simple_untrimmed:
  "filteredPeople_simple roster (init_simple\<lparr>appliedQuery := ''al ''\<rparr>) = []
   \<and> sublist (toLowerCase (trim ''al '')) (toLowerCase (name alice))"
  by code_simp

subsection \<open>C2: selection\<close>

text \<open>
  C2, amended. In the component with the dropdown flag, selecting a person \<open>c\<close> sets the
  selected item to \<open>c\<close>, the query and the applied query to the name of \<open>c\<close>, clears the
  focus flag and the dropdown flag, and calls \<^verbatim>\<open>onSelected\<close>, when one was supplied, once
  with \<open>c\<close>. In \<^verbatim>\<open>src/App.tsx\<close> the press on a row sets the selected item and the query and
  clears the focus flag; it leaves the applied query and the timer alone, and there is no
  callback.
\<close>

theorem handlePersonSelected_effect:
  "selectedItem (handlePersonSelected p c s) = Some c
   \<and> query (handlePersonSelected p c s) = name c
   \<and> appliedQuery (handlePersonSelected p c s) = name c
   \<and> \<not> isInputFocused (handlePersonSelected p c s)
   \<and> \<not> isDropdownOpen (handlePersonSelected p c s)
   \<and> \<not> isOpen (handlePersonSelected p c s)
   \<and> onSelected_calls (handlePersonSelected p c s) =
       onSelected_calls s @ (case onSelected p of Some f \<Rightarrow> [c] | None \<Rightarrow> [])
   \<and> onMouseDown_simple c t = t\<lparr>selectedItem := Some c, query := name c, isInputFocused := False\<rparr>
   \<and> appliedQuery (onMouseDown_simple c t) = appliedQuery t
   \<and> timer (onMouseDown_simple c t) = timer t"
  by (simp add: handlePersonSelected_eq isOpen_def onMouseDown_simple_def)

text \<open>
  Focused, with \<open>al\<close> typed and applied and a callback supplied, Alice is selected: both
  queries are her name, the dropdown is closed, and the callback was called once, with
  her.
\<close>

theorem handlePersonSelected_effect_witness:
  "appliedQuery (wait 300 (handleQueryChange notifying ''al'' (handleFocus init))) = ''al''
   \<and> query (handlePersonSelected notifying alice
        (wait 300 (handleQueryChange notifying ''al'' (handleFocus init)))) = ''Alice''
   \<and> appliedQuery (handlePersonSelected notifying alice
        (wait 300 (handleQueryChange notifying ''al'' (handleFocus init)))) = ''Alice''
   \<and> \<not> isOpen (handlePersonSelected notifying alice
        (wait 300 (handleQueryChange notifying ''al'' (handleFocus init))))
   \<and> onSelected_calls (handlePersonSelected notifying alice
        (wait 300 (handleQueryChange notifying ''al'' (handleFocus init)))) = [alice]"
proof -
  have before:
    "appliedQuery (wait 300 (handleQueryChange notifying ''al'' (handleFocus init))) = ''al''"
    "onSelected_calls (wait 300 (handleQueryChange notifying ''al'' (handleFocus init))) = []"
    by code_simp+
  have given: "name alice = ''Alice''" "onSelected notifying = Some (\<lambda>person. ())"
    by (simp_all add: alice_def notifying_def)
  from handlePersonSelected_effect
    [of notifying alice "wait 300 (handleQueryChange notifying ''al'' (handleFocus init))"]
    before given
  show ?thesis by simp
qed

text \<open>
  C2 as stated fails in \<^verbatim>\<open>src/App.tsx\<close>: after \<open>al\<close> was typed and applied, selecting Alice
  leaves the applied query at \<open>al\<close>.
\<close>

theorem onMouseDown_simple_keeps_appliedQuery:
  "appliedQuery (onMouseDown_simple alice
      (wait_simple 300 (handleQueryChange_simple delay300 ''al'' (onFocus_simple init_simple))))
     = ''al''
   \<and> name alice = ''Alice''"
  by code_simp

subsection \<open>C3: an empty text\<close>

text \<open>
  C3, amended. In the component with the dropdown flag, a text change whose text trims
  to the empty string sets the applied query to the empty string in the handler itself,
  leaves the timer as it was, and sets the dropdown flag to the focus flag. In
  \<^verbatim>\<open>src/App.tsx\<close> every text change, empty or not, goes to the debounce: the handler
  leaves the applied query as it was and starts the timer with the new text.
\<close>

theorem handleQueryChange_empty_immediate:
  "(trim next = [] \<longrightarrow>
      appliedQuery (handleQueryChange p next s) = []
      \<and> commits (handleQueryChange p next s) = commits s @ [[]]
      \<and> timer (handleQueryChange p next s) = timer s
      \<and> isDropdownOpen (handleQueryChange p next s) = isInputFocused s
      \<and> isOpen (handleQueryChange p next s) = isInputFocused s)
   \<and> appliedQuery (handleQueryChange_simple q next t) = appliedQuery t
   \<and> commits (handleQueryChange_simple q next t) = commits t
   \<and> timer (handleQueryChange_simple q next t) = Some (debounceDelay q, next)
   \<and> isInputFocused (handleQueryChange_simple q next t) = isInputFocused t"
  by (simp add: handleQueryChange_empty handleQueryChange_simple_eq isOpen_def)

text \<open>Focused, with \<open>al\<close> typed and applied, the field is overwritten with one blank.\<close>

theorem handleQueryChange_empty_immediate_witness:
  "trim '' '' = []
   \<and> appliedQuery (wait 300 (handleQueryChange silent ''al'' (handleFocus init))) = ''al''
   \<and> appliedQuery (handleQueryChange silent '' ''
        (wait 300 (handleQueryChange silent ''al'' (handleFocus init)))) = []
   \<and> isOpen (handleQueryChange silent '' ''
        (wait 300 (handleQueryChange silent ''al'' (handleFocus init))))"
proof -
  have h: "trim '' '' = []"
    by (simp add: trim_def isWhiteSpace_def)
  have before: "appliedQuery (wait 300 (handleQueryChange silent ''al'' (handleFocus init))) = ''al''"
    "isInputFocused (wait 300 (handleQueryChange silent ''al'' (handleFocus init)))"
    by code_simp+
  from handleQueryChange_empty_immediate
    [of "'' ''" silent "wait 300 (handleQueryChange silent ''al'' (handleFocus init))"] h before
  show ?thesis by simp
qed

text \<open>
  C3 as stated fails in \<^verbatim>\<open>src/App.tsx\<close>: with \<open>al\<close> applied, clearing the field leaves the
  applied query at \<open>al\<close> when the handler returns.
\<close>

theorem handleQueryChange_simple_empty_deferred:
  "trim [] = []
   \<and> appliedQuery (handleQueryChange_simple delay300 []
        (wait_simple 300 (handleQueryChange_simple delay300 ''al'' (onFocus_simple init_simple))))
     = ''al''"
  by code_simp

subsection \<open>C4: the debounce\<close>




subsection \<open>C5: editing after a selection\<close>

text \<open>
  C5, amended. In the component with the dropdown flag, a text change with a person
  selected clears the selection exactly when the trimmed new text differs from the
  trimmed name of that person, and keeps it when they are equal; with nobody selected a
  text change selects nobody, and neither does the debounce when it fires. In the
  component with \<^verbatim>\<open>lastValue\<close>, every text change clears the selection, whatever the text.
\<close>

theorem handleQueryChange_selection:
  "(selectedItem s = Some c \<longrightarrow>
      (selectedItem (handleQueryChange p next s) = None) = (trim next \<noteq> trim (name c)))
   \<and> (selectedItem s = Some c \<and> trim next = trim (name c) \<longrightarrow>
      selectedItem (handleQueryChange p next s) = Some c)
   \<and> (selectedItem s = None \<longrightarrow> selectedItem (handleQueryChange p next s) = None)
   \<and> selectedItem (wait ms s) = selectedItem s
   \<and> selectedItem (handleQueryChange_mid q next t) = None"
  by (cases "trim next = []")
    (auto simp: handleQueryChange_empty handleQueryChange_nonempty wait_frame
       handleQueryChange_mid_def Let_def)

text \<open>
  Alice selected, so that the field shows her name: a blank typed after it keeps her,
  deleting the last letter clears the selection.
\<close>

theorem handleQueryChange_selection_witness:
  "selectedItem (handlePersonSelected silent alice init) = Some alice
   \<and> query (handlePersonSelected silent alice init) = ''Alice''
   \<and> trim ''Alice '' = trim (name alice)
   \<and> selectedItem (handleQueryChange silent ''Alice '' (handlePersonSelected silent alice init))
       = Some alice
   \<and> selectedItem (handleQueryChange silent ''Alic'' (handlePersonSelected silent alice init))
       = None"
proof -
  have h: "selectedItem (handlePersonSelected silent alice init) = Some alice"
    "query (handlePersonSelected silent alice init) = ''Alice''"
    by (simp_all add: handlePersonSelected_eq alice_def)
  have eq: "trim ''Alice '' = trim (name alice)" and ne: "trim ''Alic'' \<noteq> trim (name alice)"
    by (simp_all add: alice_def trim_def isWhiteSpace_def)
  from handleQueryChange_selection [of "handlePersonSelected silent alice init" alice silent "''Alice ''"]
    handleQueryChange_selection [of "handlePersonSelected silent alice init" alice silent "''Alic''"]
    h eq ne
  show ?thesis by simp
qed

text \<open>
  C5 as stated fails in the component with \<^verbatim>\<open>lastValue\<close>: Alice is selected, so that the
  field shows her name, and a blank is typed after it. The trimmed text is still her
  trimmed name, and the selection is gone.
\<close>

theorem handleQueryChange_mid_clears:
  "selectedItem (handlePersonSelected_mid silent_mid alice init_mid) = Some alice
   \<and> query (handlePersonSelected_mid silent_mid alice init_mid) = ''Alice''
   \<and> trim ''Alice '' = trim (name alice)
   \<and> selectedItem (handleQueryChange_mid silent_mid ''Alice ''
        (handlePersonSelected_mid silent_mid alice init_mid)) = None"
  by code_simp

subsection \<open>C6: what is rendered\<close>

text \<open>
  C6, amended. In the component with the dropdown flag, with the dropdown open
  (\<^verbatim>\<open>isOpen\<close>: focused and the flag set) the rows of the filter's result are rendered when
  it is not empty, and the one notice when it is empty; with the dropdown closed neither
  rows nor notice are rendered. In \<^verbatim>\<open>src/App.tsx\<close> the rows are rendered when the input is
  focused, and the notice whenever the filter's result is empty, focused or not.
\<close>

theorem render_dropdown:
  "(isOpen s \<and> filteredPeople ps s \<noteq> [] \<longrightarrow>
      suggestion_items (render ps s) = filteredPeople ps s
      \<and> \<not> no_suggestions_message (render ps s))
   \<and> (isOpen s \<and> filteredPeople ps s = [] \<longrightarrow>
      suggestion_items (render ps s) = [] \<and> no_suggestions_message (render ps s))
   \<and> (\<not> isOpen s \<longrightarrow>
      suggestion_items (render ps s) = [] \<and> \<not> no_suggestions_message (render ps s))
   \<and> suggestion_items (render_simple ps t) =
       (if isInputFocused t then filteredPeople_simple ps t else [])
   \<and> no_suggestions_message (render_simple ps t) = (filteredPeople_simple ps t = [])"
  by (simp add: render_def render_simple_def Let_def)

text \<open>
  The spec's scenario: focused, \<open>zzz\<close> typed and applied. Nobody matches, the dropdown is
  open, and the notice is rendered with no row.
\<close>

theorem render_dropdown_witness:
  "isOpen (wait 300 (handleQueryChange silent ''zzz'' (handleFocus init)))
   \<and> filteredPeople roster (wait 300 (handleQueryChange silent ''zzz'' (handleFocus init))) = []
   \<and> suggestion_items
       (render roster (wait 300 (handleQueryChange silent ''zzz'' (handleFocus init)))) = []
   \<and> no_suggestions_message
       (render roster (wait 300 (handleQueryChange silent ''zzz'' (handleFocus init))))"
proof -
  have h: "isOpen (wait 300 (handleQueryChange silent ''zzz'' (handleFocus init)))
      \<and> filteredPeople roster (wait 300 (handleQueryChange silent ''zzz'' (handleFocus init))) = []"
    by code_simp
  with render_dropdown
    [of "wait 300 (handleQueryChange silent ''zzz'' (handleFocus init))" roster]
  show ?thesis by simp
qed

text \<open>
  C6 as stated fails in \<^verbatim>\<open>src/App.tsx\<close>: \<open>zzz\<close> is typed and applied and the input loses the
  focus. The dropdown is closed, and the notice is still rendered.
\<close>

theorem render_simple_notice_when_closed:
  "\<not> isInputFocused (onBlur_simple
      (wait_simple 300 (handleQueryChange_simple delay300 ''zzz'' (onFocus_simple init_simple))))
   \<and> no_suggestions_message (render_simple roster (onBlur_simple
      (wait_simple 300 (handleQueryChange_simple delay300 ''zzz'' (onFocus_simple init_simple)))))"
  by code_simp

subsection \<open>C7: when the dropdown opens and closes\<close>




subsection \<open>C8: the optional callback\<close>

text \<open>
  C8. A selection calls the callback, once with the selected person, when one was
  supplied, and calls nothing when none was; the state it leaves is the same either way,
  the log of the calls apart, so without a callback the selection makes all its updates.
  This holds of \<^verbatim>\<open>onSelected\<close> in the component with the dropdown flag and of
  \<^verbatim>\<open>onPersonSelected\<close> in the component with \<^verbatim>\<open>lastValue\<close>. The handlers have no failing
  branch: the prop is called under the \<^verbatim>\<open>typeof\<close> test only.
\<close>

theorem callback_optional:
  "((onSelected_calls (handlePersonSelected p c s) \<noteq> onSelected_calls s) = (onSelected p \<noteq> None))
   \<and> onSelected_calls (handlePersonSelected p c s) =
       onSelected_calls s @ (case onSelected p of Some f \<Rightarrow> [c] | None \<Rightarrow> [])
   \<and> handlePersonSelected (p\<lparr>onSelected := None\<rparr>) c s =
       s\<lparr>selectedItem := Some c, query := name c, appliedQuery := name c,
         commits := commits s @ [name c], isInputFocused := False, isDropdownOpen := False\<rparr>
   \<and> handlePersonSelected p c s =
       (handlePersonSelected (p\<lparr>onSelected := None\<rparr>) c s)
         \<lparr>onSelected_calls := onSelected_calls (handlePersonSelected p c s)\<rparr>
   \<and> ((onPersonSelected_calls (handlePersonSelected_mid q c t) \<noteq> onPersonSelected_calls t) =
        (onPersonSelected q \<noteq> None))
   \<and> onPersonSelected_calls (handlePersonSelected_mid q c t) =
       onPersonSelected_calls t @ (case onPersonSelected q of Some f \<Rightarrow> [c] | None \<Rightarrow> [])
   \<and> handlePersonSelected_mid (q\<lparr>onPersonSelected := None\<rparr>) c t =
       t\<lparr>selectedItem := Some c, query := name c, appliedQuery := name c,
         commits := commits t @ [name c], isInputFocused := False\<rparr>
   \<and> handlePersonSelected_mid q c t =
       (handlePersonSelected_mid (q\<lparr>onPersonSelected := None\<rparr>) c t)
         \<lparr>onPersonSelected_calls := onPersonSelected_calls (handlePersonSelected_mid q c t)\<rparr>"
  by (simp add: handlePersonSelected_eq handlePersonSelected_mid_eq split: option.splits)

text \<open>Alice is selected with a callback and without one: one call of it, and none.\<close>

theorem callback_optional_witness:
  "onSelected_calls (handlePersonSelected notifying alice init) = [alice]
   \<and> onSelected_calls (handlePersonSelected silent alice init) = []
   \<and> appliedQuery (handlePersonSelected silent alice init) = ''Alice''"
proof -
  have given: "onSelected notifying = Some (\<lambda>person. ())" "onSelected silent = None"
    "silent\<lparr>onSelected := None\<rparr> = silent" "onSelected_calls init = []"
    "name alice = ''Alice''"
    by (simp_all add: notifying_def silent_def init_def alice_def)
  from callback_optional [of notifying alice init, THEN conjunct2, THEN conjunct1] given
  have called: "onSelected_calls (handlePersonSelected notifying alice init) = [alice]"
    by simp
  from callback_optional [of silent alice init, THEN conjunct2, THEN conjunct1] given
  have quiet: "onSelected_calls (handlePersonSelected silent alice init) = []"
    by simp
  from callback_optional [of silent alice init, THEN conjunct2, THEN conjunct2, THEN conjunct1]
    given
  have "appliedQuery (handlePersonSelected silent alice init) = ''Alice''"
    by simp
  with called quiet show ?thesis by simp
qed

subsection \<open>C9: a retyped query that is never applied\<close>

text \<open>
  C9. The test of the debounced function reads \<^verbatim>\<open>lastAppliedValueRef\<close>, and neither a
  text change nor a selection writes it, though both may write the applied query. So for
  a query \<open>q\<close> that does not trim to the empty string: focus, type \<open>q\<close>, wait for the
  commit, clear the field, type \<open>q\<close> again and wait. The debounced function finds \<open>q\<close> in
  the ref and commits nothing: the field shows \<open>q\<close>, the applied query is still empty, and
  the filter returns the whole roster.
\<close>

theorem retyped_query_suppressed:
  assumes "trim q \<noteq> []" and "debounceDelay p \<le> g2" and "debounceDelay p \<le> g4"
  shows "lastAppliedValueRef (handleQueryChange p next s) = lastAppliedValueRef s
    \<and> lastAppliedValueRef (handlePersonSelected p c s) = lastAppliedValueRef s
    \<and> appliedQuery (wait g2 (run p [(0, Focus), (g1, Change q)] init)) = q
    \<and> commits (wait g2 (run p [(0, Focus), (g1, Change q)] init)) = [[], q]
    \<and> query (wait g4
        (run p [(0, Focus), (g1, Change q), (g2, Change []), (g3, Change q)] init)) = q
    \<and> appliedQuery (wait g4
        (run p [(0, Focus), (g1, Change q), (g2, Change []), (g3, Change q)] init)) = []
    \<and> commits (wait g4
        (run p [(0, Focus), (g1, Change q), (g2, Change []), (g3, Change q)] init)) = [[], q, []]
    \<and> timer (wait g4
        (run p [(0, Focus), (g1, Change q), (g2, Change []), (g3, Change q)] init)) = None
    \<and> filteredPeople ps (wait g4
        (run p [(0, Focus), (g1, Change q), (g2, Change []), (g3, Change q)] init)) = ps"
proof -
  have q: "q \<noteq> []"
    using assms(1) trim_Nil by auto
  have ref1: "lastAppliedValueRef (handleQueryChange p next s) = lastAppliedValueRef s"
    by (cases "trim next = []") (simp_all add: handleQueryChange_empty handleQueryChange_nonempty)
  have ref2: "lastAppliedValueRef (handlePersonSelected p c s) = lastAppliedValueRef s"
    by (simp add: handlePersonSelected_eq)
  define s1 where "s1 = step p (0, Focus) init"
  define s2 where "s2 = step p (g1, Change q) s1"
  define s3 where "s3 = step p (g2, Change []) s2"
  define s4 where "s4 = step p (g3, Change q) s3"
  have s1: "s1 = init\<lparr>isInputFocused := True, isDropdownOpen := True, commits := [[]]\<rparr>"
    by (simp add: s1_def step_def wait_None handleFocus_eq trim_Nil init_def)
  have s2: "s2 = s1\<lparr>query := q, timer := Some (debounceDelay p, q)\<rparr>"
    using assms(1) by (simp add: s2_def step_def s1 wait_None handleQueryChange_nonempty init_def)
  have w2: "wait g2 s2 = applyValue q (s2\<lparr>timer := None\<rparr>)"
    using assms(2) by (intro wait_due [where left = "debounceDelay p"]) (simp_all add: s2)
  then have w2': "wait g2 s2 =
      s1\<lparr>query := q, appliedQuery := q, commits := [[], q], lastAppliedValueRef := q\<rparr>"
    using q by (simp add: s2 s1 applyValue_def setAppliedQuery_def init_def)
  have s3: "s3 = s1\<lparr>query := [], appliedQuery := [], commits := [[], q, []],
                     lastAppliedValueRef := q\<rparr>"
    by (simp add: s3_def step_def w2' handleQueryChange_empty trim_Nil s1 init_def)
  have s4: "s4 = s3\<lparr>query := q, timer := Some (debounceDelay p, q)\<rparr>"
    using assms(1) by (simp add: s4_def step_def s3 s1 wait_None handleQueryChange_nonempty init_def)
  have w4: "wait g4 s4 = applyValue q (s4\<lparr>timer := None\<rparr>)"
    using assms(3) by (intro wait_due [where left = "debounceDelay p"]) (simp_all add: s4)
  then have w4': "wait g4 s4 = s3\<lparr>query := q\<rparr>"
    by (simp add: s4 s3 s1 applyValue_def init_def)
  have r2: "run p [(0, Focus), (g1, Change q)] init = s2"
    by (simp add: run_Cons run_Nil s1_def s2_def)
  have r4: "run p [(0, Focus), (g1, Change q), (g2, Change []), (g3, Change q)] init = s4"
    by (simp add: run_Cons run_Nil s1_def s2_def s3_def s4_def)
  have fp: "filteredPeople ps (s3\<lparr>query := q\<rparr>) = ps"
    by (simp add: filteredPeople_def s3 s1 trim_Nil)
  show ?thesis
    unfolding r2 r4 w2' w4' using ref1 ref2 fp
    by (simp add: s3 s1 init_def)
qed

text \<open>The query \<open>al\<close>, with the default delay and every wait as long as the delay.\<close>

theorem retyped_query_suppressed_witness:
  "trim ''al'' \<noteq> [] \<and> debounceDelay silent \<le> 300
   \<and> query (wait 300 (run silent
        [(0, Focus), (10, Change ''al''), (300, Change []), (10, Change ''al'')] init)) = ''al''
   \<and> appliedQuery (wait 300 (run silent
        [(0, Focus), (10, Change ''al''), (300, Change []), (10, Change ''al'')] init)) = []
   \<and> filteredPeople roster (wait 300 (run silent
        [(0, Focus), (10, Change ''al''), (300, Change []), (10, Change ''al'')] init)) = roster"
proof -
  have h1: "trim ''al'' \<noteq> []"
    by (simp add: trim_def isWhiteSpace_def)
  have h2: "debounceDelay silent \<le> 300"
    by (simp add: silent_def)
  from retyped_query_suppressed [OF h1 h2 h2, of _ _ _ 10 10 roster] h1 h2
  show ?thesis by simp
qed

subsection \<open>C10: the empty query\<close>

text \<open>
  C10. When the applied query trims to the empty string the filter returns the whole
  roster, focused or not, and the filter's result is the same in any two states with the
  same applied query: the branch for a focused input with an empty query returns what
  the filter would. This holds in the component with the dropdown flag and in the one
  with \<^verbatim>\<open>lastValue\<close>.
\<close>

theorem filteredPeople_empty_query:
  "(trim (appliedQuery s) = [] \<longrightarrow> filteredPeople ps s = ps)
   \<and> (appliedQuery s = appliedQuery s' \<longrightarrow> filteredPeople ps s = filteredPeople ps s')
   \<and> (trim (appliedQuery t) = [] \<longrightarrow> filteredPeople_mid ps t = ps)
   \<and> (appliedQuery t = appliedQuery t' \<longrightarrow> filteredPeople_mid ps t = filteredPeople_mid ps t')"
  by (simp add: filteredPeople_filter filteredPeople_mid_filter toLowerCase_Nil)

text \<open>Not focused, with nothing applied: the whole roster, as when focused.\<close>

theorem filteredPeople_empty_query_witness:
  "trim (appliedQuery init) = [] \<and> \<not> isInputFocused init
   \<and> filteredPeople roster init = roster
   \<and> appliedQuery init = appliedQuery (handleBlur (handleFocus init))
   \<and> filteredPeople roster (handleFocus init) = roster
   \<and> trim (appliedQuery init_mid) = [] \<and> filteredPeople_mid roster init_mid = roster"
proof -
  have h: "trim (appliedQuery init) = []" "trim (appliedQuery init_mid) = []"
    "appliedQuery init = appliedQuery (handleFocus init)"
    "appliedQuery init = appliedQuery (handleBlur (handleFocus init))"
    by (simp_all add: init_def init_mid_def trim_Nil handleFocus_eq handleBlur_def)
  have nf: "\<not> isInputFocused init"
    by (simp add: init_def)
  from filteredPeople_empty_query [of init roster "handleFocus init" init_mid init_mid] h nf
  show ?thesis by metis
qed

end
